theory Spec2Isabelle
  imports Complex_Main
begin

section \<open>Python values\<close>

text \<open>
  Python floats are modelled as real numbers and their arithmetic as exact, with one
  exception: the quotient that \<open>propagate_multiple\<close> truncates to the number of steps
  is rounded to double precision (\<open>fl\<close> below), since the rounding decides how many
  epochs the loop requests. NaN, infinity and overflow of IEEE doubles are outside the
  model. The exceptions the modelled code can raise are values of \<open>py_error\<close>; a
  fallible function returns \<open>py_error + 'a\<close>, with \<open>Inl\<close> for the exception.
\<close>

datatype py_error = ZeroDivisionError | IndexError

text \<open>
  A \<open>datetime\<close> is modelled by its offset from \<open>datetime(2000, 1, 1, 12, 0, 0)\<close> in
  seconds, so that \<open>(dt - j2000).total_seconds()\<close> is the value itself and
  \<open>dt + timedelta(minutes=m)\<close> is \<open>dt + 60 * m\<close>; the rounding of a \<open>timedelta\<close> to
  a whole number of microseconds is not modelled.
\<close>

type_synonym epoch = real

type_synonym vec3 = "real \<times> real \<times> real"

definition py_int :: "real \<Rightarrow> int" where
  \<comment> \<open>\<open>int(f)\<close> on a float: truncation towards zero.\<close>
  "py_int r = (if 0 \<le> r then \<lfloor>r\<rfloor> else \<lceil>r\<rceil>)"

definition py_mod :: "real \<Rightarrow> real \<Rightarrow> real" where
  \<comment> \<open>\<open>a % b\<close> on floats: the remainder takes the sign of the divisor.\<close>
  "py_mod a b = a - b * of_int \<lfloor>a / b\<rfloor>"

definition py_range :: "int \<Rightarrow> int list" where
  \<comment> \<open>\<open>range(n)\<close>: empty when \<open>n \<le> 0\<close>.\<close>
  "py_range n = [0..n - 1]"

text \<open>
  The result of one float operation is the exact result rounded to the nearest double,
  ties to the even significand (IEEE 754 binary64). A double in the binade
  \<open>2\<^sup>e \<le> \<bar>x\<bar> < 2\<^sup>e\<^sup>+\<^sup>1\<close> is a multiple of \<open>2\<^sup>e\<^sup>-\<^sup>5\<^sup>2\<close>; below \<open>2\<^sup>-\<^sup>1\<^sup>0\<^sup>2\<^sup>2\<close> the doubles
  are the multiples of \<open>2\<^sup>-\<^sup>1\<^sup>0\<^sup>7\<^sup>4\<close>.
\<close>

definition round_half_even :: "real \<Rightarrow> int" where
  \<comment> \<open>the nearest integer, the even one of the two when \<open>y\<close> is half-way\<close>
  "round_half_even y =
     (let f = \<lfloor>y\<rfloor>; d = y - of_int f
      in if d < 1 / 2 then f
         else if 1 / 2 < d then f + 1
         else if even f then f else f + 1)"

definition fl :: "real \<Rightarrow> real" where
  "fl x =
     (if x = 0 then 0
      else let e = max \<lfloor>log 2 \<bar>x\<bar>\<rfloor> (- 1022);
               ulp = 2 powi (e - 52)
           in of_int (round_half_even (x / ulp)) * ulp)"

definition atan2 :: "real \<Rightarrow> real \<Rightarrow> real" where
  \<comment> \<open>\<open>math.atan2(y, x)\<close> on real arguments.\<close>
  "atan2 y x =
     (if 0 < x then arctan (y / x)
      else if x < 0 then (if 0 \<le> y then arctan (y / x) + pi else arctan (y / x) - pi)
      else if 0 < y then pi / 2
      else if y < 0 then - (pi / 2)
      else 0)"

definition degrees :: "real \<Rightarrow> real" where
  \<comment> \<open>\<open>math.degrees\<close>\<close>
  "degrees r = r * 180 / pi"

section \<open>Coordinate transform: \<open>OrbitalPropagator.eci_to_geodetic\<close>\<close>

definition omega_earth :: real where
  "omega_earth = 72921159 / 10 ^ 12"

definition gmst_rad :: "epoch \<Rightarrow> real" where
  "gmst_rad dt =
     (let seconds_since_j2000 = dt
      in py_mod (4.894961212823756 + omega_earth * seconds_since_j2000) (2 * pi))"

definition lon_deg_raw :: "vec3 \<Rightarrow> epoch \<Rightarrow> real" where
  \<comment> \<open>\<open>lon_deg\<close> before the normalisation: \<open>math.degrees(math.atan2(y, x) - gmst_rad)\<close>.\<close>
  "lon_deg_raw position_eci dt =
     (case position_eci of (x, y, z) \<Rightarrow> degrees (atan2 y x - gmst_rad dt))"

definition r_earth :: real where
  "r_earth = 6378.137"

definition eci_to_geodetic :: "vec3 \<Rightarrow> epoch \<Rightarrow> real \<times> real \<times> real" where
  "eci_to_geodetic position_eci dt =
     (case position_eci of (x, y, z) \<Rightarrow>
        let lon_deg = lon_deg_raw position_eci dt;
            lon_deg = (if lon_deg > 180 then lon_deg - 360
                       else if lon_deg < - 180 then lon_deg + 360
                       else lon_deg);
            r_xy = sqrt (x\<^sup>2 + y\<^sup>2);
            lat_rad = atan2 z r_xy;
            lat_deg = degrees lat_rad;
            r_satellite = sqrt (x\<^sup>2 + y\<^sup>2 + z\<^sup>2);
            alt_km = r_satellite - r_earth
        in (lat_deg, lon_deg, alt_km))"

definition latitude_of :: "real \<times> real \<times> real \<Rightarrow> real" where
  "latitude_of g = fst g"

definition longitude_of :: "real \<times> real \<times> real \<Rightarrow> real" where
  "longitude_of g = fst (snd g)"

definition altitude_of :: "real \<times> real \<times> real \<Rightarrow> real" where
  "altitude_of g = snd (snd g)"

section \<open>Sample propagation loop: \<open>OrbitalPropagator.propagate_multiple\<close>\<close>

text \<open>
  One entry of the result list. The dict's \<open>time_str\<close> is the formatted \<open>time\<close> and
  is left out.
\<close>

record sample =
  time :: epoch
  position_eci_km :: vec3
  velocity_eci_km_s :: vec3
  latitude_deg :: real
  longitude_deg :: real
  altitude_km :: real
  speed_km_s :: real

text \<open>
  The SGP4 propagator is an external collaborator: a function from the epoch to
  \<open>(error, position, velocity)\<close>, with \<open>error = 0\<close> for success. The effects of the
  loop are explicit: the epochs at which the propagator was invoked, in order, and
  the warnings printed, each with its epoch and error code.
\<close>

type_synonym propagator = "epoch \<Rightarrow> int \<times> vec3 \<times> vec3"

record effects =
  sgp4_calls :: "epoch list"
  stdout :: "(epoch \<times> int) list"

definition no_effects :: effects where
  "no_effects = \<lparr>sgp4_calls = [], stdout = []\<rparr>"

definition linalg_norm :: "vec3 \<Rightarrow> real" where
  \<comment> \<open>\<open>np.linalg.norm\<close> of a 3-vector\<close>
  "linalg_norm v = (case v of (a, b, c) \<Rightarrow> sqrt (a\<^sup>2 + b\<^sup>2 + c\<^sup>2))"

definition propagate_single :: "propagator \<Rightarrow> epoch \<Rightarrow> effects \<Rightarrow> (int \<times> vec3 \<times> vec3) \<times> effects" where
  "propagate_single sgp4 dt w = (sgp4 dt, w\<lparr>sgp4_calls := sgp4_calls w @ [dt]\<rparr>)"

definition current_time_at :: "epoch \<Rightarrow> real \<Rightarrow> int \<Rightarrow> epoch" where
  \<comment> \<open>\<open>start_time + timedelta(minutes=i * time_step_minutes)\<close>\<close>
  "current_time_at start_time time_step_minutes i =
     start_time + 60 * (of_int i * time_step_minutes)"

definition make_sample :: "epoch \<Rightarrow> vec3 \<Rightarrow> vec3 \<Rightarrow> sample" where
  \<comment> \<open>the conversion to geographic coordinates and the dict appended to \<open>results\<close>\<close>
  "make_sample current_time position velocity =
     (case eci_to_geodetic position current_time of (lat, lon, alt) \<Rightarrow>
        \<lparr>time = current_time,
         position_eci_km = position,
         velocity_eci_km_s = velocity,
         latitude_deg = lat,
         longitude_deg = lon,
         altitude_km = alt,
         speed_km_s = linalg_norm velocity\<rparr>)"

fun propagate_loop ::
  "propagator \<Rightarrow> epoch \<Rightarrow> real \<Rightarrow> int list \<Rightarrow> sample list \<Rightarrow> effects \<Rightarrow> sample list \<times> effects"
where
  "propagate_loop sgp4 start_time time_step_minutes [] results w = (results, w)"
| "propagate_loop sgp4 start_time time_step_minutes (i # rest) results w =
     (let current_time = current_time_at start_time time_step_minutes i
      in case propagate_single sgp4 current_time w of
           ((error, position, velocity), w1) \<Rightarrow>
             if error \<noteq> 0
             then propagate_loop sgp4 start_time time_step_minutes rest results
                    (w1\<lparr>stdout := stdout w1 @ [(current_time, error)]\<rparr>)
             else propagate_loop sgp4 start_time time_step_minutes rest
                    (results @ [make_sample current_time position velocity]) w1)"

text \<open>
  \<open>num_steps = int((duration_hours * 60) / time_step_minutes)\<close>: the product and the
  quotient are each rounded to a double, and \<open>int\<close> truncates the rounded quotient.
  The two arguments are doubles, values that \<open>fl\<close> leaves as they are; they are
  rounded where they enter the quotient so that a decimal such as \<open>1.1\<close> stands for
  the double of the literal \<open>1.1\<close>. The division raises for a zero step.
\<close>

definition propagate_multiple ::
  "propagator \<Rightarrow> epoch \<Rightarrow> real \<Rightarrow> real \<Rightarrow> effects \<Rightarrow> (py_error + sample list) \<times> effects"
where
  "propagate_multiple sgp4 start_time duration_hours time_step_minutes w =
     (if time_step_minutes = 0 then (Inl ZeroDivisionError, w)
      else
        let num_steps = py_int (fl (fl (fl duration_hours * 60) / fl time_step_minutes))
        in case propagate_loop sgp4 start_time time_step_minutes
                  (py_range (num_steps + 1)) [] w of
             (results, w') \<Rightarrow> (Inr results, w'))"

definition get_current_position ::
  "propagator \<Rightarrow> epoch \<Rightarrow> effects \<Rightarrow> (py_error + sample option) \<times> effects"
where
  \<comment> \<open>\<open>current_time\<close> is the value of \<open>datetime.utcnow()\<close>.\<close>
  "get_current_position sgp4 current_time w =
     (case propagate_multiple sgp4 current_time 0 0 w of
        (Inl e, w') \<Rightarrow> (Inl e, w')
      | (Inr results, w') \<Rightarrow>
          (Inr (if results \<noteq> [] then Some (results ! 0) else None), w'))"

definition target_epochs :: "epoch \<Rightarrow> real \<Rightarrow> real \<Rightarrow> epoch list" where
  \<comment> \<open>the values \<open>current_time\<close> takes over \<open>range(num_steps + 1)\<close>, for a non-zero step\<close>
  "target_epochs start_time duration_hours time_step_minutes =
     map (current_time_at start_time time_step_minutes)
       (py_range (py_int (fl (fl (fl duration_hours * 60) / fl time_step_minutes)) + 1))"

definition succeeds :: "propagator \<Rightarrow> epoch \<Rightarrow> bool" where
  "succeeds sgp4 dt = (fst (sgp4 dt) = 0)"

definition sample_of :: "propagator \<Rightarrow> epoch \<Rightarrow> sample" where
  "sample_of sgp4 dt = make_sample dt (fst (snd (sgp4 dt))) (snd (snd (sgp4 dt)))"

definition warning_of :: "propagator \<Rightarrow> epoch \<Rightarrow> epoch \<times> int" where
  "warning_of sgp4 dt = (dt, fst (sgp4 dt))"

section \<open>Track segmenter: \<open>GroundTrackVisualizer._plot_track_segments\<close>\<close>

text \<open>
  The loop state is \<open>(segments_lats, segments_lons, current_seg_lats, current_seg_lons)\<close>.
  The loop runs over \<open>range(len(lons))\<close>; the model walks \<open>lons\<close> itself and carries
  \<open>lons[i-1]\<close> (\<open>None\<close> at \<open>i = 0\<close>) and what remains of \<open>lats\<close> from index \<open>i\<close>, so
  that \<open>lats[i]\<close> raises \<open>IndexError\<close> when \<open>lats\<close> is the shorter list.
\<close>

type_synonym seg_state = "real list list \<times> real list list \<times> real list \<times> real list"

definition save_segment :: "seg_state \<Rightarrow> real list list \<times> real list list" where
  \<comment> \<open>\<open>if current_seg_lons: segments_lons.append(...); segments_lats.append(...)\<close>\<close>
  "save_segment st =
     (case st of (segments_lats, segments_lons, current_seg_lats, current_seg_lons) \<Rightarrow>
        if current_seg_lons \<noteq> []
        then (segments_lats @ [current_seg_lats], segments_lons @ [current_seg_lons])
        else (segments_lats, segments_lons))"

fun segment_loop :: "real option \<Rightarrow> real list \<Rightarrow> real list \<Rightarrow> seg_state \<Rightarrow> py_error + seg_state" where
  "segment_loop prev lats [] st = Inr st"
| "segment_loop prev [] (lon # lons) st = Inl IndexError"
| "segment_loop None (lat # lats) (lon # lons) (sla, slo, cla, clo) =
     segment_loop (Some lon) lats lons (sla, slo, cla @ [lat], clo @ [lon])"
| "segment_loop (Some lon_prev) (lat # lats) (lon # lons) (sla, slo, cla, clo) =
     (let lon_diff = \<bar>lon - lon_prev\<bar>
      in if lon_diff > 180
         then (case save_segment (sla, slo, cla, clo) of
                 (sla', slo') \<Rightarrow> segment_loop (Some lon) lats lons (sla', slo', [lat], [lon]))
         else segment_loop (Some lon) lats lons (sla, slo, cla @ [lat], clo @ [lon]))"

text \<open>
  The result is the list of \<open>(seg_lons, seg_lats)\<close> pairs handed to \<open>ax.plot\<close>, in
  order: \<open>zip(segments_lons, segments_lats)\<close>.
\<close>

definition plot_track_segments ::
  "real list \<Rightarrow> real list \<Rightarrow> py_error + (real list \<times> real list) list"
where
  "plot_track_segments lats lons =
     (case segment_loop None lats lons ([], [], [], []) of
        Inl e \<Rightarrow> Inl e
      | Inr st \<Rightarrow>
          (case save_segment st of (segments_lats, segments_lons) \<Rightarrow>
             Inr (zip segments_lons segments_lats)))"

definition track_segments :: "sample list \<Rightarrow> py_error + (real list \<times> real list) list" where
  \<comment> \<open>\<open>plot_ground_track\<close>: \<open>lats\<close> and \<open>lons\<close> are read off \<open>results\<close>, then segmented.\<close>
  "track_segments results =
     plot_track_segments (map latitude_deg results) (map longitude_deg results)"

definition segment_points :: "real list \<times> real list \<Rightarrow> (real \<times> real) list" where
  \<comment> \<open>the \<open>(lon, lat)\<close> points of one plotted segment\<close>
  "segment_points seg = zip (fst seg) (snd seg)"

definition jump :: "real \<Rightarrow> real \<Rightarrow> bool" where
  \<comment> \<open>the discontinuity test between \<open>lons[i-1]\<close> and \<open>lons[i]\<close>\<close>
  "jump lon_prev lon = (\<bar>lon - lon_prev\<bar> > 180)"

text \<open>
  The invariant of the segmentation loop, with \<open>prev\<close> the longitude of the sample
  walked last: the saved segments and the open one have the same shapes in latitude and
  longitude, no saved segment is empty, no segment holds a jump, each segment starts
  with a jump from the end of the one before, and the open segment ends at \<open>prev\<close>.
\<close>

definition seg_inv :: "real option \<Rightarrow> seg_state \<Rightarrow> bool" where
  "seg_inv prev st =
     (case st of (sla, slo, cla, clo) \<Rightarrow>
        map length sla = map length slo \<and> length cla = length clo \<and>
        [] \<notin> set slo \<and>
        list_all (successively (\<lambda>a b. \<not> jump a b)) (slo @ [clo]) \<and>
        successively (\<lambda>s t. jump (last s) (hd t)) (slo @ [clo]) \<and>
        (case prev of None \<Rightarrow> slo = [] \<and> clo = [] | Some p \<Rightarrow> clo \<noteq> [] \<and> last clo = p))"

section \<open>Orbit partitioner: \<open>GroundTrackVisualizer.plot_multiple_orbits\<close>\<close>

definition py_slice :: "'a list \<Rightarrow> int \<Rightarrow> int \<Rightarrow> 'a list" where
  \<comment> \<open>\<open>xs[a:b]\<close>: a negative bound counts from the end, and both are clamped.\<close>
  "py_slice xs a b =
     (let n = int (length xs);
          a' = (if a < 0 then max (a + n) 0 else min a n);
          b' = (if b < 0 then max (b + n) 0 else min b n)
      in take (nat (b' - a')) (drop (nat a') xs))"

definition colors :: "string list" where
  "colors = [''blue'', ''red'', ''green'', ''purple'', ''orange'']"

definition points_per_orbit :: "sample list \<Rightarrow> int \<Rightarrow> py_error + int" where
  "points_per_orbit results num_orbits =
     (if length results > 0 then
        let duration = (time (last results) - time (hd results)) / 60;
            time_step = duration / real (length results)
        in if time_step = 0 then Inl ZeroDivisionError
           else Inr (py_int (90 / time_step))
      else if num_orbits = 0 then Inl ZeroDivisionError
      else Inr (int (length results) div num_orbits))"

fun orbit_loop :: "sample list \<Rightarrow> int \<Rightarrow> int list \<Rightarrow> sample list list \<Rightarrow> sample list list" where
  "orbit_loop results ppo [] slices = slices"
| "orbit_loop results ppo (orbit_num # rest) slices =
     (let start_idx = orbit_num * ppo;
          end_idx = start_idx + ppo
      in if end_idx > int (length results) then slices
         else orbit_loop results ppo rest (slices @ [py_slice results start_idx end_idx]))"

text \<open>
  The result is the list of \<open>orbit_results\<close> slices, in order; slice \<open>k\<close> is drawn
  in \<open>colors[k]\<close> with the label \<open>Orbit k+1\<close>.
\<close>

definition plot_multiple_orbits :: "sample list \<Rightarrow> int \<Rightarrow> py_error + sample list list" where
  "plot_multiple_orbits results num_orbits =
     (case points_per_orbit results num_orbits of
        Inl e \<Rightarrow> Inl e
      | Inr ppo \<Rightarrow>
          Inr (orbit_loop results ppo (py_range (min num_orbits (int (length colors)))) []))"

text \<open>
  The partitioner's step size as the specification words it, for comparison with
  \<open>points_per_orbit\<close>: the time span between the first and the last sample divided by
  \<open>count - 1\<close>, and \<open>floor(period_estimate_minutes / mean_step_minutes)\<close> points per
  orbit.
\<close>

definition spec_mean_step_minutes :: "sample list \<Rightarrow> real" where
  "spec_mean_step_minutes results =
     ((time (last results) - time (hd results)) / 60) / (real (length results) - 1)"

definition spec_points_per_orbit :: "real \<Rightarrow> sample list \<Rightarrow> int" where
  "spec_points_per_orbit period_estimate_minutes results =
     \<lfloor>period_estimate_minutes / spec_mean_step_minutes results\<rfloor>"

section \<open>Fixtures\<close>

text \<open>
  A propagator that always succeeds with a fixed state vector, one that fails (error
  code 1) at the epochs of a given list, and the sample the loop builds from the fixed
  state vector at an epoch.
\<close>

definition fixed_sgp4 :: propagator where
  "fixed_sgp4 dt = (0, (7000, 0, 0), (0, 7.5, 0))"

definition failing_sgp4 :: "epoch list \<Rightarrow> propagator" where
  "failing_sgp4 bad dt = (if dt \<in> set bad then 1 else 0, (7000, 0, 0), (0, 7.5, 0))"

definition sample_at :: "epoch \<Rightarrow> sample" where
  "sample_at dt = make_sample dt (7000, 0, 0) (0, 7.5, 0)"

definition samples_every :: "real \<Rightarrow> nat \<Rightarrow> sample list" where
  \<comment> \<open>\<open>n\<close> samples, \<open>step_seconds\<close> apart, starting at J2000.0\<close>
  "samples_every step_seconds n = map (\<lambda>i. sample_at (step_seconds * real i)) [0..<n]"

definition geo_sample :: "epoch \<Rightarrow> real \<Rightarrow> real \<Rightarrow> sample" where
  \<comment> \<open>a sample with given time, latitude and longitude\<close>
  "geo_sample dt lat lon =
     \<lparr>time = dt, position_eci_km = (0, 0, 0), velocity_eci_km_s = (0, 0, 0),
      latitude_deg = lat, longitude_deg = lon, altitude_km = 400, speed_km_s = 7.5\<rparr>"

definition crossing_samples :: "sample list" where
  "crossing_samples =
     [geo_sample 0 10 179.9, geo_sample 300 12 (- 179.9), geo_sample 600 14 (- 170)]"

section \<open>Properties of the coordinate transform\<close>

lemma py_mod_range:
  assumes "0 < b"
  shows "0 \<le> py_mod a b" and "py_mod a b < b"
proof -
  have "of_int \<lfloor>a / b\<rfloor> \<le> a / b" by simp
  then have "of_int \<lfloor>a / b\<rfloor> * b \<le> a"
    using assms by (simp only: pos_le_divide_eq)
  then show "0 \<le> py_mod a b" by (simp add: py_mod_def mult.commute)
  have "a / b < of_int \<lfloor>a / b\<rfloor> + 1" by linarith
  then have "a < (of_int \<lfloor>a / b\<rfloor> + 1) * b"
    using assms by (simp only: pos_divide_less_eq)
  then show "py_mod a b < b" by (simp add: py_mod_def algebra_simps)
qed

lemma gmst_rad_range: "0 \<le> gmst_rad dt" "gmst_rad dt < 2 * pi"
  using py_mod_range [of "2 * pi"] by (simp_all add: gmst_rad_def)

lemma atan2_range: "- pi < atan2 y x" "atan2 y x \<le> pi"
proof -
  have b: "- (pi / 2) < arctan (y / x)" "arctan (y / x) < pi / 2"
    by (rule arctan_lbound, rule arctan_ubound)
  have neg: "x < 0 \<Longrightarrow> 0 \<le> y \<Longrightarrow> arctan (y / x) \<le> 0"
    by (simp add: divide_nonneg_neg arctan_le_zero_iff)
  have pos: "x < 0 \<Longrightarrow> y < 0 \<Longrightarrow> 0 < arctan (y / x)"
    by (simp add: divide_neg_neg)
  show "- pi < atan2 y x"
    using b neg pos pi_gt_zero unfolding atan2_def by (auto simp: not_less)
  show "atan2 y x \<le> pi"
    using b neg pos pi_gt_zero unfolding atan2_def by (auto simp: not_less)
qed

lemma lon_deg_raw_range:
  "- 540 < lon_deg_raw (x, y, z) dt" "lon_deg_raw (x, y, z) dt \<le> 180"
proof -
  let ?r = "atan2 y x - gmst_rad dt"
  have lo: "- (3 * pi) < ?r" and hi: "?r \<le> pi"
    using atan2_range [of y x] gmst_rad_range [of dt] by linarith+
  have "- 540 * pi < ?r * 180" using lo by simp
  then have "- 540 < ?r * 180 / pi"
    using pi_gt_zero by (simp only: pos_less_divide_eq)
  then show "- 540 < lon_deg_raw (x, y, z) dt"
    by (simp add: lon_deg_raw_def degrees_def)
  have "?r * 180 \<le> 180 * pi" using hi by simp
  then have "?r * 180 / pi \<le> 180"
    using pi_gt_zero by (simp only: pos_divide_le_eq)
  then show "lon_deg_raw (x, y, z) dt \<le> 180"
    by (simp add: lon_deg_raw_def degrees_def)
qed

text \<open>
  Claim C9. For every position vector \<open>(x, y, z)\<close> and every epoch, the altitude
  returned by the coordinate transform is \<open>sqrt(x\<^sup>2 + y\<^sup>2 + z\<^sup>2) - 6378.137\<close> km, and
  it is the same at any two epochs.
\<close>

theorem eci_to_geodetic_altitude:
  "altitude_of (eci_to_geodetic (x, y, z) dt) = sqrt (x\<^sup>2 + y\<^sup>2 + z\<^sup>2) - 6378.137 \<and>
   altitude_of (eci_to_geodetic (x, y, z) dt) = altitude_of (eci_to_geodetic (x, y, z) dt')"
  by (simp add: eci_to_geodetic_def altitude_of_def r_earth_def Let_def)

text \<open>
  Claim C1, as the code has it. For every position and every epoch, the longitude
  returned by the coordinate transform lies in the closed interval \<open>[-180, 180]\<close>, and
  it is the unnormalised value \<open>degrees(atan2(y, x) - gmst_rad)\<close> either unchanged or
  with 360 added once; the unnormalised value never exceeds 180, so 360 is never
  subtracted.
\<close>

theorem eci_to_geodetic_longitude_range:
  "- 180 \<le> longitude_of (eci_to_geodetic (x, y, z) dt) \<and>
   longitude_of (eci_to_geodetic (x, y, z) dt) \<le> 180 \<and>
   lon_deg_raw (x, y, z) dt \<le> 180 \<and>
   (longitude_of (eci_to_geodetic (x, y, z) dt) = lon_deg_raw (x, y, z) dt \<or>
    longitude_of (eci_to_geodetic (x, y, z) dt) = lon_deg_raw (x, y, z) dt + 360)"
  using lon_deg_raw_range [of x y z dt]
  by (simp add: eci_to_geodetic_def longitude_of_def Let_def)

text \<open>
  The lower bound of C1 is not strict. At the epoch 60000 seconds before J2000.0
  (1999-12-31 19:20:00) the rotation angle is \<open>g = 0.519691672823756\<close> rad, and the
  position \<open>(-7000 cos g, -7000 sin g, 0)\<close>, whose \<open>x\<close> and \<open>y\<close> are both non-zero, has
  \<open>atan2(y, x) = g - pi\<close>: the longitude is exactly \<open>-180\<close>, which the test
  \<open>lon_deg < -180\<close> leaves as it is.
\<close>

lemma gmst_rad_before_j2000: "gmst_rad (- 60000) = 0.519691672823756"
proof -
  have v: "4.894961212823756 + omega_earth * (- 60000) = (0.519691672823756 :: real)"
    by (simp add: omega_earth_def)
  have "\<lfloor>(0.519691672823756 :: real) / (2 * pi)\<rfloor> = 0"
  proof -
    have "(0.519691672823756 :: real) < 2 * pi" using pi_ge_two by simp
    then have "(0.519691672823756 :: real) / (2 * pi) < 1"
      using pi_gt_zero by (simp only: pos_divide_less_eq)
    moreover have "0 \<le> (0.519691672823756 :: real) / (2 * pi)" by simp
    ultimately show ?thesis by linarith
  qed
  then show ?thesis unfolding gmst_rad_def Let_def py_mod_def v by simp
qed

lemma cos_sin_pos_at_g:
  "0 < cos (0.519691672823756 :: real)" "0 < sin (0.519691672823756 :: real)"
proof -
  let ?g = "0.519691672823756 :: real"
  have g: "0 < ?g" "?g < pi / 2" using pi_ge_two by simp_all
  show "0 < cos ?g" using g by (intro cos_gt_zero_pi) simp_all
  show "0 < sin ?g" using g pi_gt_zero by (intro sin_gt_zero) simp_all
qed

lemma atan2_third_quadrant:
  "atan2 (- (7000 * sin 0.519691672823756)) (- (7000 * cos 0.519691672823756))
     = 0.519691672823756 - pi"
proof -
  let ?g = "0.519691672823756 :: real"
  have g: "0 < ?g" "?g < pi / 2" using pi_ge_two by simp_all
  have "(- (7000 * sin ?g)) / (- (7000 * cos ?g)) = tan ?g"
    by (simp add: tan_def)
  moreover have "arctan (tan ?g) = ?g" using g by (intro arctan_tan) simp_all
  ultimately have "arctan ((- (7000 * sin ?g)) / (- (7000 * cos ?g))) = ?g"
    by (simp only:)
  then show ?thesis unfolding atan2_def using cos_sin_pos_at_g by simp
qed

theorem eci_to_geodetic_longitude_minus_180:
  "- (7000 * cos (0.519691672823756 :: real)) \<noteq> 0 \<and>
   - (7000 * sin (0.519691672823756 :: real)) \<noteq> 0 \<and>
   longitude_of (eci_to_geodetic
      (- (7000 * cos 0.519691672823756), - (7000 * sin 0.519691672823756), 0) (- 60000))
     = - 180 \<and>
   \<not> (- 180 < longitude_of (eci_to_geodetic
      (- (7000 * cos 0.519691672823756), - (7000 * sin 0.519691672823756), 0) (- 60000)))"
proof -
  have "lon_deg_raw (- (7000 * cos 0.519691672823756), - (7000 * sin 0.519691672823756), 0)
          (- 60000) = - 180"
    unfolding lon_deg_raw_def prod.case atan2_third_quadrant gmst_rad_before_j2000 degrees_def
    by simp
  then have "longitude_of (eci_to_geodetic
      (- (7000 * cos 0.519691672823756), - (7000 * sin 0.519691672823756), 0) (- 60000))
     = - 180"
    by (simp add: eci_to_geodetic_def longitude_of_def Let_def)
  then show ?thesis using cos_sin_pos_at_g by simp
qed

section \<open>Properties of the rounding to double precision\<close>

lemma round_half_even_nonneg: "0 \<le> y \<Longrightarrow> 0 \<le> round_half_even y"
  by (auto simp: round_half_even_def Let_def)

lemma round_half_even_nonpos:
  assumes "y \<le> 0"
  shows "round_half_even y \<le> 0"
proof -
  have f: "\<lfloor>y\<rfloor> \<le> 0" using assms by simp
  have "\<lfloor>y\<rfloor> \<le> - 1" if "1 / 2 \<le> y - of_int \<lfloor>y\<rfloor>"
  proof -
    from that assms have "of_int \<lfloor>y\<rfloor> < (0 :: real)" by linarith
    then show ?thesis by linarith
  qed
  then show ?thesis using f by (auto simp: round_half_even_def Let_def not_less)
qed

lemma fl_nonneg: "0 \<le> x \<Longrightarrow> 0 \<le> fl x"
  by (auto simp: fl_def Let_def
        intro!: mult_nonneg_nonneg round_half_even_nonneg divide_nonneg_pos)

lemma fl_nonpos:
  assumes "x \<le> 0"
  shows "fl x \<le> 0"
proof (cases "x = 0")
  case True
  then show ?thesis by (simp add: fl_def)
next
  case False
  let ?u = "(2 :: real) powi (max \<lfloor>log 2 \<bar>x\<bar>\<rfloor> (- 1022) - 52)"
  have u: "0 < ?u" by simp
  have "x / ?u \<le> 0" using assms u by (simp add: divide_nonpos_pos)
  then have "round_half_even (x / ?u) \<le> 0" by (rule round_half_even_nonpos)
  then have "of_int (round_half_even (x / ?u)) * ?u \<le> 0"
    using u by (simp add: mult_nonpos_nonneg)
  then show ?thesis using False by (simp add: fl_def Let_def)
qed

text \<open>The rounding of a number whose binade is known.\<close>

lemma fl_eval:
  assumes lo: "2 powi e \<le> \<bar>x\<bar>" and hi: "\<bar>x\<bar> < 2 powi (e + 1)" and e: "- 1022 \<le> e"
  shows "fl x = of_int (round_half_even (x / 2 powi (e - 52))) * 2 powi (e - 52)"
proof -
  have pos: "0 < \<bar>x\<bar>" using lo by (smt (verit) zero_less_power_int)
  then have nz: "x \<noteq> 0" by simp
  have p1: "(2 :: real) powr of_int e = 2 powi e" by (simp add: powr_real_of_int')
  have p2: "(2 :: real) powr of_int (e + 1) = 2 powi (e + 1)"
    by (rule powr_real_of_int') simp_all
  have "\<lfloor>log 2 \<bar>x\<bar>\<rfloor> = e"
    using floor_log_eq_powr_iff [of "\<bar>x\<bar>" 2 e] pos lo hi p1 p2 by simp
  then show ?thesis using nz e by (simp add: fl_def Let_def max_def)
qed

text \<open>
  The doubles of the literals \<open>2.2\<close> and \<open>1.1\<close>, which rounding leaves as they are,
  and the two operations of \<open>(2.2 * 60) / 1.1\<close>: the product rounds to 132, the
  quotient, exactly 120 on the two doubles, rounds to the double below 120.
\<close>

lemma fl_literal_2_2: "fl 2.2 = 2476979795053773 / 2 ^ 50"
  using fl_eval [of 1 "2.2"] by (simp add: round_half_even_def)

lemma fl_literal_1_1: "fl 1.1 = 2476979795053773 / 2 ^ 51"
  using fl_eval [of 0 "1.1"] by (simp add: round_half_even_def)

lemma fl_double_2_2: "fl (2476979795053773 / 2 ^ 50) = 2476979795053773 / 2 ^ 50"
  using fl_eval [of 1 "2476979795053773 / 2 ^ 50"] by (simp add: round_half_even_def)

lemma fl_double_1_1: "fl (2476979795053773 / 2 ^ 51) = 2476979795053773 / 2 ^ 51"
  using fl_eval [of 0 "2476979795053773 / 2 ^ 51"] by (simp add: round_half_even_def)

lemma fl_minutes_2_2: "fl (2476979795053773 / 2 ^ 50 * 60) = 132"
  using fl_eval [of 7 "2476979795053773 / 2 ^ 50 * 60"] by (simp add: round_half_even_def)

lemma fl_quotient_132_1_1: "fl (132 / (2476979795053773 / 2 ^ 51)) = 120 - 1 / 2 ^ 46"
  using fl_eval [of 6 "132 / (2476979795053773 / 2 ^ 51)"] by (simp add: round_half_even_def)

lemma fl_1_5: "fl (3 / 2) = 3 / 2"
  using fl_eval [of 0 "3 / 2"] by (simp add: round_half_even_def)

lemma fl_10: "fl 10 = 10"
  using fl_eval [of 3 10] by (simp add: round_half_even_def)

lemma fl_24: "fl 24 = 24"
  using fl_eval [of 4 24] by (simp add: round_half_even_def)

lemma fl_minus_10: "fl (- 10) = - 10"
  using fl_eval [of 3 "- 10"] by (simp add: round_half_even_def)

lemma fl_90: "fl 90 = 90"
  using fl_eval [of 6 90] by (simp add: round_half_even_def)

lemma fl_9: "fl 9 = 9"
  using fl_eval [of 3 9] by (simp add: round_half_even_def)

lemma fl_1440: "fl 1440 = 1440"
  using fl_eval [of 10 1440] by (simp add: round_half_even_def)

lemma fl_minus_144: "fl (- 144) = - 144"
  using fl_eval [of 7 "- 144"] by (simp add: round_half_even_def)

section \<open>Properties of the propagation loop\<close>


lemma time_make_sample: "time (make_sample t p v) = t"
  by (simp add: make_sample_def split: prod.splits)

lemma time_sample_of: "time (sample_of sgp4 t) = t"
  by (simp add: sample_of_def time_make_sample)

lemma propagate_loop_eq:
  "propagate_loop sgp4 start step idxs results w =
     (results @ map (sample_of sgp4)
        (filter (succeeds sgp4) (map (current_time_at start step) idxs)),
      w\<lparr>sgp4_calls := sgp4_calls w @ map (current_time_at start step) idxs,
        stdout := stdout w @ map (warning_of sgp4)
          (filter (\<lambda>t. \<not> succeeds sgp4 t) (map (current_time_at start step) idxs))\<rparr>)"
proof (induction idxs arbitrary: results w)
  case Nil
  show ?case by simp
next
  case (Cons i rest)
  show ?case
    by (cases "sgp4 (current_time_at start step i)")
       (simp add: Cons.IH propagate_single_def Let_def succeeds_def sample_of_def warning_of_def)
qed

lemma propagate_multiple_eq:
  assumes "step \<noteq> 0"
  shows "propagate_multiple sgp4 start dur step w =
     (Inr (map (sample_of sgp4) (filter (succeeds sgp4) (target_epochs start dur step))),
      w\<lparr>sgp4_calls := sgp4_calls w @ target_epochs start dur step,
        stdout := stdout w @ map (warning_of sgp4)
          (filter (\<lambda>t. \<not> succeeds sgp4 t) (target_epochs start dur step))\<rparr>)"
  using assms by (simp add: propagate_multiple_def propagate_loop_eq target_epochs_def Let_def)

lemma py_range_length: "length (py_range n) = nat n"
  by (simp add: py_range_def)

lemma fl_zero: "fl 0 = 0"
  by (simp add: fl_def)

text \<open>With a zero duration the only target epoch is \<open>start_time\<close>.\<close>

lemma target_epochs_zero_duration: "target_epochs start_time 0 time_step_minutes = [start_time]"
  by (simp add: target_epochs_def fl_zero py_int_def py_range_def current_time_at_def)

lemma succeeds_failing_sgp4: "succeeds (failing_sgp4 bad) t = (t \<notin> set bad)"
  by (simp add: succeeds_def failing_sgp4_def)

lemma succeeds_fixed_sgp4: "succeeds fixed_sgp4 t"
  by (simp add: succeeds_def fixed_sgp4_def)

text \<open>
  Claim C4. For a non-zero step the loop returns normally whatever the propagator
  reports. It invokes the propagator at every target epoch, in order; an epoch with a
  non-zero error code contributes a warning and no sample, and the loop goes on with the
  next epoch. The samples are those of the successful epochs, in epoch order, so their
  number and the number of failures add up to the number of epochs: 2 failures among
  10 epochs leave exactly 8 samples.
\<close>

theorem propagate_multiple_skips_failures:
  "time_step_minutes \<noteq> 0 \<Longrightarrow>
     (let epochs = target_epochs start_time duration_hours time_step_minutes;
          out = propagate_multiple sgp4 start_time duration_hours time_step_minutes w;
          failed = filter (\<lambda>t. \<not> succeeds sgp4 t) epochs
      in \<exists>results. fst out = Inr results \<and>
           results = map (sample_of sgp4) (filter (succeeds sgp4) epochs) \<and>
           map time results = filter (succeeds sgp4) epochs \<and>
           length results + length failed = length epochs \<and>
           sgp4_calls (snd out) = sgp4_calls w @ epochs \<and>
           stdout (snd out) = stdout w @ map (warning_of sgp4) failed \<and>
           (length epochs = 10 \<and> length failed = 2 \<longrightarrow> length results = 8))"
proof -
  assume nz: "time_step_minutes \<noteq> 0"
  let ?E = "target_epochs start_time duration_hours time_step_minutes"
  have len: "length (filter (succeeds sgp4) ?E) + length (filter (\<lambda>t. \<not> succeeds sgp4 t) ?E)
               = length ?E"
    by (rule sum_length_filter_compl)
  have tm: "map time (map (sample_of sgp4) (filter (succeeds sgp4) ?E)) = filter (succeeds sgp4) ?E"
    by (simp add: comp_def time_sample_of)
  show ?thesis
    unfolding Let_def propagate_multiple_eq [OF nz] using len tm by simp
qed

theorem propagate_multiple_skips_failures_witness:
  "(10 :: real) \<noteq> 0 \<and>
   length (target_epochs 0 1.5 10) = 10 \<and>
   length (filter (\<lambda>t. \<not> succeeds (failing_sgp4 [1800, 4200]) t) (target_epochs 0 1.5 10)) = 2 \<and>
   (\<exists>results. fst (propagate_multiple (failing_sgp4 [1800, 4200]) 0 1.5 10 no_effects) = Inr results \<and>
      length results = 8 \<and>
      map time results = [0, 600, 1200, 2400, 3000, 3600, 4800, 5400])"
proof -
  have E: "target_epochs 0 1.5 10 = [0, 600, 1200, 1800, 2400, 3000, 3600, 4200, 4800, 5400]"
    by (simp add: target_epochs_def fl_1_5 fl_10 fl_90 fl_9 py_int_def py_range_def
          current_time_at_def upto_rec1)
  have nz: "(10 :: real) \<noteq> 0" by simp
  show ?thesis
    using propagate_multiple_skips_failures [OF nz, of 0 "1.5" "failing_sgp4 [1800, 4200]" no_effects]
    unfolding Let_def E by (simp add: succeeds_failing_sgp4)
qed

text \<open>
  Claim C5, as the code has it. A zero step raises \<open>ZeroDivisionError\<close> in the
  computation of \<open>num_steps\<close>, before the propagator is invoked and before anything
  is printed. A negative step is not rejected: the loop returns a result, of at most
  one sample when the duration is not negative.
\<close>

theorem propagate_multiple_zero_step:
  "propagate_multiple sgp4 start_time duration_hours 0 w = (Inl ZeroDivisionError, w) \<and>
   (time_step_minutes < 0 \<longrightarrow>
      (\<exists>results. fst (propagate_multiple sgp4 start_time duration_hours time_step_minutes w)
           = Inr results \<and>
         (0 \<le> duration_hours \<longrightarrow> length results \<le> 1)))"
proof -
  have a: "propagate_multiple sgp4 start_time duration_hours 0 w = (Inl ZeroDivisionError, w)"
    by (simp add: propagate_multiple_def)
  have b: "length (target_epochs start_time duration_hours time_step_minutes) \<le> 1"
    if "time_step_minutes < 0" "0 \<le> duration_hours"
  proof -
    have "0 \<le> fl duration_hours" using that by (intro fl_nonneg)
    then have "0 \<le> fl (fl duration_hours * 60)" by (intro fl_nonneg) simp
    moreover have "fl time_step_minutes \<le> 0" using that by (intro fl_nonpos) simp
    ultimately have "fl (fl duration_hours * 60) / fl time_step_minutes \<le> 0"
      by (rule divide_nonneg_nonpos)
    then have "fl (fl (fl duration_hours * 60) / fl time_step_minutes) \<le> 0"
      by (rule fl_nonpos)
    then have "py_int (fl (fl (fl duration_hours * 60) / fl time_step_minutes)) \<le> 0"
      by (auto simp: py_int_def ceiling_le_zero)
    then show ?thesis by (simp add: target_epochs_def py_range_length)
  qed
  have c: "length (filter P xs) \<le> 1" if "length xs \<le> 1" for P and xs :: "real list"
    using that length_filter_le [of P xs] by linarith
  show ?thesis
    using a b c by (auto simp: propagate_multiple_eq)
qed

theorem propagate_multiple_zero_step_witness:
  "(- 10 :: real) < 0 \<and> (0 :: real) \<le> 24 \<and>
   propagate_multiple fixed_sgp4 0 24 0 no_effects = (Inl ZeroDivisionError, no_effects) \<and>
   (\<exists>results. fst (propagate_multiple fixed_sgp4 0 24 (- 10) no_effects) = Inr results \<and>
      length results \<le> 1)"
  using propagate_multiple_zero_step [of fixed_sgp4 0 24 no_effects "- 10"] by simp

text \<open>
  C5 fails for a negative step: with a duration of 24 hours and a step of -10 minutes,
  \<open>num_steps\<close> is -144, \<open>range(-143)\<close> is empty, and the loop returns the empty list
  without raising, invoking the propagator or printing.
\<close>

theorem propagate_multiple_negative_step_silent:
  "propagate_multiple fixed_sgp4 0 24 (- 10) no_effects = (Inr [], no_effects)"
proof -
  have "target_epochs 0 24 (- 10) = []"
    by (simp add: target_epochs_def fl_24 fl_minus_10 fl_1440 fl_minus_144 py_int_def
          py_range_def)
  then show ?thesis
    by (simp add: propagate_multiple_eq no_effects_def)
qed

text \<open>
  Claim C10. \<open>get_current_position\<close> always raises \<open>ZeroDivisionError\<close> and never
  returns a position: it calls \<open>propagate_multiple\<close> with a zero step, and the
  division fails before the propagator is invoked (the effects are unchanged).
\<close>

theorem get_current_position_raises:
  "get_current_position sgp4 current_time w = (Inl ZeroDivisionError, w)"
  by (simp add: get_current_position_def propagate_multiple_def)

text \<open>
  Claim C6 fails on the code. For \<open>duration_hours = 2.2\<close> and
  \<open>time_step_minutes = 1.1\<close>, a positive step and a non-negative duration, the claim
  gives \<open>floor(duration / step) + 1 = 121\<close> target epochs: the quotient is 120, for
  the decimals as for the two doubles. The code computes \<open>(2.2 * 60) / 1.1\<close> in double
  precision: the product rounds to 132, the quotient to the double below 120, \<open>int\<close>
  truncates it to 119, and the loop runs over \<open>range(120)\<close>. The propagator is invoked
  at 120 epochs and 120 samples are returned; the epoch at the end of the duration is
  never requested.
\<close>

theorem propagate_multiple_drops_last_epoch:
  "(0 :: real) < 1.1 \<and> (0 :: real) \<le> 2.2 \<and>
   \<lfloor>(2.2 * 60) / (1.1 :: real)\<rfloor> + 1 = 121 \<and>
   fl 2.2 = 2476979795053773 / 2 ^ 50 \<and>
   fl 1.1 = 2476979795053773 / 2 ^ 51 \<and>
   \<lfloor>(fl 2.2 * 60) / fl 1.1\<rfloor> + 1 = 121 \<and>
   fl (fl 2.2 * 60) = 132 \<and>
   fl (fl (fl 2.2 * 60) / fl 1.1) = 120 - 1 / 2 ^ 46 \<and>
   py_int (fl (fl (fl 2.2 * 60) / fl 1.1)) = 119 \<and>
   py_range (119 + 1) = [0..119] \<and>
   length (target_epochs 0 2.2 1.1) = 120 \<and>
   length (sgp4_calls (snd (propagate_multiple fixed_sgp4 0 2.2 1.1 no_effects))) = 120 \<and>
   (\<exists>results. fst (propagate_multiple fixed_sgp4 0 2.2 1.1 no_effects) = Inr results \<and>
      length results = 120)"
proof -
  have p: "fl (fl 2.2 * 60) = 132"
    by (simp only: fl_literal_2_2 fl_minutes_2_2)
  have q: "fl (fl (fl 2.2 * 60) / fl 1.1) = 120 - 1 / 2 ^ 46"
    by (simp only: p fl_literal_1_1 fl_quotient_132_1_1)
  have "(119 :: real) \<le> 120 - 1 / 2 ^ 46" and "(120 - 1 / 2 ^ 46 :: real) < 119 + 1"
    by simp_all
  then have "\<lfloor>120 - 1 / 2 ^ 46 :: real\<rfloor> = 119"
    by (simp only: floor_unique of_int_numeral)
  then have n: "py_int (fl (fl (fl 2.2 * 60) / fl 1.1)) = 119"
    unfolding q by (simp add: py_int_def)
  have len: "length (target_epochs 0 2.2 1.1) = 120"
    unfolding target_epochs_def n by (simp add: py_range_length)
  have nz: "(1.1 :: real) \<noteq> 0" by simp
  have all: "filter (succeeds fixed_sgp4) (target_epochs 0 2.2 1.1) = target_epochs 0 2.2 1.1"
    by (simp add: succeeds_fixed_sgp4)
  have ex: "\<lfloor>(2.2 * 60) / (1.1 :: real)\<rfloor> + 1 = 121" by simp
  have exd: "\<lfloor>(fl 2.2 * 60) / fl 1.1\<rfloor> + 1 = 121"
    unfolding fl_literal_2_2 fl_literal_1_1 by simp
  have r: "py_range (119 + 1) = [0..119]" by (simp add: py_range_def)
  have calls: "length (sgp4_calls (snd (propagate_multiple fixed_sgp4 0 2.2 1.1 no_effects))) = 120"
    unfolding propagate_multiple_eq [OF nz] using len by (simp add: no_effects_def)
  have res: "\<exists>results. fst (propagate_multiple fixed_sgp4 0 2.2 1.1 no_effects) = Inr results \<and>
      length results = 120"
    unfolding propagate_multiple_eq [OF nz] all using len by simp
  have s: "(0 :: real) < 1.1" and d: "(0 :: real) \<le> 2.2" by simp_all
  show ?thesis
    using s d ex fl_literal_2_2 fl_literal_1_1 exd p q n r len calls res
    by (intro conjI) assumption+
qed

section \<open>Properties of the track segmenter\<close>

lemma seg_inv_init: "seg_inv None ([], [], [], [])"
  by (simp add: seg_inv_def)

lemma seg_inv_first:
  "seg_inv None (sla, slo, cla, clo) \<Longrightarrow> seg_inv (Some lon) (sla, slo, cla @ [lat], clo @ [lon])"
  by (simp add: seg_inv_def)

lemma seg_inv_append:
  "seg_inv (Some p) (sla, slo, cla, clo) \<Longrightarrow> \<not> jump p lon \<Longrightarrow>
   seg_inv (Some lon) (sla, slo, cla @ [lat], clo @ [lon])"
  by (auto simp: seg_inv_def successively_append_iff)

lemma seg_inv_break:
  "seg_inv (Some p) (sla, slo, cla, clo) \<Longrightarrow> jump p lon \<Longrightarrow>
   seg_inv (Some lon) (sla @ [cla], slo @ [clo], [lat], [lon])"
  by (auto simp: seg_inv_def successively_append_iff)

lemma save_segment_nonempty:
  "clo \<noteq> [] \<Longrightarrow> save_segment (sla, slo, cla, clo) = (sla @ [cla], slo @ [clo])"
  by (simp add: save_segment_def)

lemma seg_inv_nonempty: "seg_inv (Some p) (sla, slo, cla, clo) \<Longrightarrow> clo \<noteq> []"
  by (simp add: seg_inv_def)

lemma segment_loop_inv:
  "segment_loop prev lats lons st = Inr st' \<Longrightarrow> seg_inv prev st \<Longrightarrow>
   seg_inv (if lons = [] then prev else Some (last lons)) st'"
proof (induction prev lats lons st rule: segment_loop.induct)
  case (1 prev lats st)
  then show ?case by simp
next
  case (2 prev lon lons st)
  then show ?case by simp
next
  case (3 lat lats lon lons sla slo cla clo)
  from "3.prems" have "seg_inv (Some lon) (sla, slo, cla @ [lat], clo @ [lon])"
    by (simp add: seg_inv_first)
  with "3.IH" "3.prems"(1) show ?case by (cases lons) simp_all
next
  case (4 p lat lats lon lons sla slo cla clo)
  show ?case
  proof (cases "jump p lon")
    case True
    have ne: "clo \<noteq> []" using "4.prems"(2) by (rule seg_inv_nonempty)
    have inv: "seg_inv (Some lon) (sla @ [cla], slo @ [clo], [lat], [lon])"
      using "4.prems"(2) True by (rule seg_inv_break)
    have run: "segment_loop (Some lon) lats lons (sla @ [cla], slo @ [clo], [lat], [lon]) = Inr st'"
      using "4.prems"(1) True ne by (simp add: jump_def save_segment_nonempty)
    have "seg_inv (if lons = [] then Some lon else Some (last lons)) st'"
      using "4.IH"(1) [of "\<bar>lon - p\<bar>" "sla @ [cla]" "slo @ [clo]"] True ne run inv
      by (simp add: jump_def save_segment_nonempty)
    then show ?thesis by (cases lons) simp_all
  next
    case False
    have inv: "seg_inv (Some lon) (sla, slo, cla @ [lat], clo @ [lon])"
      using "4.prems"(2) False by (rule seg_inv_append)
    have run: "segment_loop (Some lon) lats lons (sla, slo, cla @ [lat], clo @ [lon]) = Inr st'"
      using "4.prems"(1) False by (simp add: jump_def)
    have "seg_inv (if lons = [] then Some lon else Some (last lons)) st'"
      using "4.IH"(2) [of "\<bar>lon - p\<bar>"] False run inv by (simp add: jump_def)
    then show ?thesis by (cases lons) simp_all
  qed
qed

lemma segment_loop_concat:
  "segment_loop prev lats lons (sla, slo, cla, clo) = Inr (sla', slo', cla', clo') \<Longrightarrow>
   length cla = length clo \<Longrightarrow> length lats = length lons \<Longrightarrow>
   concat slo' @ clo' = concat slo @ clo @ lons \<and> concat sla' @ cla' = concat sla @ cla @ lats"
proof (induction prev lats lons "(sla, slo, cla, clo)" arbitrary: sla slo cla clo rule: segment_loop.induct)
  case (1 prev lats)
  then show ?case by simp
next
  case (2 prev lon lons)
  then show ?case by simp
next
  case (3 lat lats lon lons sla slo cla clo)
  then show ?case by simp
next
  case (4 p lat lats lon lons sla slo cla clo)
  then show ?case
    by (cases "clo = []") (auto simp: save_segment_def Let_def split: if_splits)
qed

lemma segment_loop_total:
  "length lats = length lons \<Longrightarrow> \<exists>st'. segment_loop prev lats lons st = Inr st'"
proof (induction prev lats lons st rule: segment_loop.induct)
  case (4 p lat lats lon lons sla slo cla clo)
  then show ?case by (auto simp: Let_def split: prod.splits)
qed (simp_all del: split_paired_Ex)

lemma concat_zip_segments:
  "map length xss = map length yss \<Longrightarrow>
   concat (map2 zip xss yss) = zip (concat xss) (concat yss)"
proof (induction xss arbitrary: yss)
  case Nil
  then show ?case by simp
next
  case (Cons xs xss)
  then obtain ys yss' where y: "yss = ys # yss'" by (cases yss) auto
  with Cons.prems have "length xs = length ys" "map length xss = map length yss'" by simp_all
  with Cons.IH [of yss'] y show ?case by simp
qed

lemma map_length_eq_length: "map length xss = map length yss \<Longrightarrow> length xss = length yss"
  using map_eq_imp_length_eq by blast

lemma plot_track_segments_char:
  assumes "length lats = length lons"
  shows "\<exists>sla slo. plot_track_segments lats lons = Inr (zip slo sla) \<and>
           map length sla = map length slo \<and> [] \<notin> set slo \<and>
           concat slo = lons \<and> concat sla = lats \<and>
           list_all (successively (\<lambda>a b. \<not> jump a b)) slo \<and>
           successively (\<lambda>s t. jump (last s) (hd t)) slo"
proof -
  obtain sla slo cla clo where run:
    "segment_loop None lats lons ([], [], [], []) = Inr (sla, slo, cla, clo)"
    using segment_loop_total [OF assms, of None "([], [], [], [])"] by (metis prod_cases4)
  let ?prev = "if lons = [] then None else Some (last lons)"
  have inv: "seg_inv ?prev (sla, slo, cla, clo)"
    using segment_loop_inv [OF run seg_inv_init] .
  have cc: "concat slo @ clo = lons" "concat sla @ cla = lats"
    using segment_loop_concat [OF run _ assms] by simp_all
  show ?thesis
  proof (cases "lons = []")
    case True
    with assms have "lats = []" by simp
    with True have "plot_track_segments lats lons = Inr (zip [] [])"
      by (simp add: plot_track_segments_def save_segment_def)
    with True \<open>lats = []\<close> show ?thesis
      by (intro exI [of _ "[]"]) simp
  next
    case False
    with inv have ne: "clo \<noteq> []" by (simp add: seg_inv_def)
    have res: "plot_track_segments lats lons = Inr (zip (slo @ [clo]) (sla @ [cla]))"
      using run ne by (simp add: plot_track_segments_def save_segment_def)
    have "map length (sla @ [cla]) = map length (slo @ [clo])"
      "[] \<notin> set (slo @ [clo])"
      "list_all (successively (\<lambda>a b. \<not> jump a b)) (slo @ [clo])"
      "successively (\<lambda>s t. jump (last s) (hd t)) (slo @ [clo])"
      using inv ne by (simp_all add: seg_inv_def)
    moreover have "concat (slo @ [clo]) = lons" "concat (sla @ [cla]) = lats"
      using cc by simp_all
    ultimately show ?thesis using res by blast
  qed
qed


lemma same_lengths_zip:
  "map length yss = map length xss \<Longrightarrow> (xs, ys) \<in> set (zip xss yss) \<Longrightarrow> length ys = length xs"
proof (induction xss arbitrary: yss)
  case Nil
  then show ?case by simp
next
  case (Cons a xss)
  then show ?case by (cases yss) auto
qed

lemma zip_map_same: "zip (map f xs) (map g xs) = map (\<lambda>x. (f x, g x)) xs"
  by (induction xs) simp_all

lemma track_segments_char:
  "\<exists>sla slo. track_segments results = Inr (zip slo sla) \<and>
           map length sla = map length slo \<and> [] \<notin> set slo \<and>
           concat slo = map longitude_deg results \<and> concat sla = map latitude_deg results \<and>
           list_all (successively (\<lambda>a b. \<not> jump a b)) slo \<and>
           successively (\<lambda>s t. jump (last s) (hd t)) slo"
  unfolding track_segments_def by (rule plot_track_segments_char) simp

text \<open>
  Claim C3. For every sample sequence the segmenter returns segments whose longitudes
  and latitudes, concatenated in order, are those of the samples; inside a segment no
  two adjacent longitudes differ by more than 180, and every segment but the first
  starts at a sample whose longitude differs by more than 180 from the one before it.
  So a new segment is opened at sample \<open>i\<close> exactly when
  \<open>abs(lons[i] - lons[i-1]) > 180\<close>. Adjacent longitudes 179.9 and -179.9 give two
  segments, -10 and 10 give one.
\<close>

theorem track_segments_break_exactly_at_jumps:
  "(\<exists>segs. track_segments results = Inr segs \<and>
      concat (map fst segs) = map longitude_deg results \<and>
      concat (map snd segs) = map latitude_deg results \<and>
      (\<forall>seg \<in> set segs. fst seg \<noteq> [] \<and> length (snd seg) = length (fst seg) \<and>
         successively (\<lambda>lon_prev lon. \<not> \<bar>lon - lon_prev\<bar> > 180) (fst seg)) \<and>
      successively (\<lambda>s t. \<bar>hd (fst t) - last (fst s)\<bar> > 180) segs) \<and>
   plot_track_segments [lat1, lat2] [179.9, - 179.9] = Inr [([179.9], [lat1]), ([- 179.9], [lat2])] \<and>
   plot_track_segments [lat1, lat2] [- 10, 10] = Inr [([- 10, 10], [lat1, lat2])]"
proof -
  obtain sla slo where c:
    "track_segments results = Inr (zip slo sla)"
    "map length sla = map length slo" "[] \<notin> set slo"
    "concat slo = map longitude_deg results" "concat sla = map latitude_deg results"
    "list_all (successively (\<lambda>a b. \<not> jump a b)) slo"
    "successively (\<lambda>s t. jump (last s) (hd t)) slo"
    using track_segments_char [of results] by blast
  have len: "length slo = length sla" using c(2) by (metis length_map)
  have f: "map fst (zip slo sla) = slo" and s: "map snd (zip slo sla) = sla"
    using len by simp_all
  have each: "fst seg \<noteq> [] \<and> length (snd seg) = length (fst seg) \<and>
      successively (\<lambda>lon_prev lon. \<not> \<bar>lon - lon_prev\<bar> > 180) (fst seg)"
    if "seg \<in> set (zip slo sla)" for seg
  proof -
    obtain a b where seg: "seg = (a, b)" by (cases seg)
    with that have m: "(a, b) \<in> set (zip slo sla)" by simp
    then have a: "a \<in> set slo" by (rule set_zip_leftD)
    with c(3) have "a \<noteq> []" by auto
    moreover have "length b = length a" using same_lengths_zip [OF c(2) m] .
    moreover have "successively (\<lambda>a b. \<not> jump a b) a"
      using c(6) a by (simp add: list_all_iff)
    ultimately show ?thesis by (simp add: seg jump_def)
  qed
  have "successively (\<lambda>s t. jump (last s) (hd t)) (map fst (zip slo sla))"
    using c(7) f by simp
  then have brk: "successively (\<lambda>s t. \<bar>hd (fst t) - last (fst s)\<bar> > 180) (zip slo sla)"
    by (simp add: successively_map jump_def)
  have ex1: "plot_track_segments [lat1, lat2] [179.9, - 179.9]
               = Inr [([179.9], [lat1]), ([- 179.9], [lat2])]"
    by (simp add: plot_track_segments_def save_segment_def)
  have ex2: "plot_track_segments [lat1, lat2] [- 10, 10] = Inr [([- 10, 10], [lat1, lat2])]"
    by (simp add: plot_track_segments_def save_segment_def)
  show ?thesis
    using c(1) c(4) c(5) f s each brk ex1 ex2 by auto
qed

text \<open>
  Claim C7. For every sample sequence, every segment handed to the renderer has at
  least one point, the point counts of the segments add up to the number of samples,
  and the points of the segments, concatenated in order, are the \<open>(lon, lat)\<close> of the
  samples in order: each sample is in exactly one segment and no segment is dropped.
  A single sample gives one segment of one point.
\<close>

theorem track_segments_partition_samples:
  "(\<exists>segs. track_segments results = Inr segs \<and>
      (\<forall>seg \<in> set segs. 1 \<le> length (segment_points seg)) \<and>
      sum_list (map (\<lambda>seg. length (segment_points seg)) segs) = length results \<and>
      concat (map segment_points segs)
        = map (\<lambda>r. (longitude_deg r, latitude_deg r)) results) \<and>
   track_segments [r] = Inr [([longitude_deg r], [latitude_deg r])]"
proof -
  obtain sla slo where c:
    "track_segments results = Inr (zip slo sla)"
    "map length sla = map length slo" "[] \<notin> set slo"
    "concat slo = map longitude_deg results" "concat sla = map latitude_deg results"
    using track_segments_char [of results] by blast
  have pts: "map segment_points (zip slo sla) = map2 zip slo sla"
    by (simp add: segment_points_def case_prod_beta)
  have cc: "concat (map segment_points (zip slo sla))
              = map (\<lambda>r. (longitude_deg r, latitude_deg r)) results"
    unfolding pts using concat_zip_segments [of slo sla] c(2) c(4) c(5)
    by (simp add: zip_map_same)
  have "length (concat (map segment_points (zip slo sla))) = length results"
    unfolding cc by simp
  then have sm: "sum_list (map (\<lambda>seg. length (segment_points seg)) (zip slo sla)) = length results"
    by (simp add: length_concat comp_def)
  have each: "1 \<le> length (segment_points seg)" if "seg \<in> set (zip slo sla)" for seg
  proof -
    obtain a b where seg: "seg = (a, b)" by (cases seg)
    with that have m: "(a, b) \<in> set (zip slo sla)" by simp
    then have "a \<in> set slo" by (rule set_zip_leftD)
    with c(3) have "a \<noteq> []" by auto
    moreover have "length b = length a" using same_lengths_zip [OF c(2) m] .
    ultimately show ?thesis by (cases a) (simp_all add: seg segment_points_def)
  qed
  have single: "track_segments [r] = Inr [([longitude_deg r], [latitude_deg r])]"
    by (simp add: track_segments_def plot_track_segments_def save_segment_def)
  show ?thesis using c(1) each sm cc single by auto
qed


theorem track_segments_break_exactly_at_jumps_witness:
  "(\<exists>segs. track_segments crossing_samples = Inr segs \<and>
      concat (map fst segs) = [179.9, - 179.9, - 170] \<and>
      concat (map snd segs) = [10, 12, 14] \<and>
      list_all (\<lambda>seg. fst seg \<noteq> [] \<and> length (snd seg) = length (fst seg) \<and>
         successively (\<lambda>lon_prev lon. \<not> \<bar>lon - lon_prev\<bar> > 180) (fst seg)) segs \<and>
      successively (\<lambda>s t. \<bar>hd (fst t) - last (fst s)\<bar> > 180) segs) \<and>
   track_segments crossing_samples = Inr [([179.9], [10]), ([- 179.9, - 170], [12, 14])]"
proof -
  have ev: "track_segments crossing_samples = Inr [([179.9], [10]), ([- 179.9, - 170], [12, 14])]"
    by (simp add: crossing_samples_def geo_sample_def track_segments_def
          plot_track_segments_def save_segment_def)
  have m: "map longitude_deg crossing_samples = [179.9, - 179.9, - 170]"
    "map latitude_deg crossing_samples = [10, 12, 14]"
    by (simp_all add: crossing_samples_def geo_sample_def)
  show ?thesis
    using track_segments_break_exactly_at_jumps [of crossing_samples 0 0] ev
    unfolding m by (auto simp: list_all_iff)
qed

theorem track_segments_partition_samples_witness:
  "(\<exists>segs. track_segments crossing_samples = Inr segs \<and>
      list_all (\<lambda>seg. 1 \<le> length (segment_points seg)) segs \<and>
      sum_list (map (\<lambda>seg. length (segment_points seg)) segs) = 3 \<and>
      concat (map segment_points segs) = [(179.9, 10), (- 179.9, 12), (- 170, 14)]) \<and>
   track_segments [geo_sample 0 10 179.9] = Inr [([179.9], [10])]"
proof -
  have m: "map (\<lambda>r. (longitude_deg r, latitude_deg r)) crossing_samples
             = [(179.9, 10), (- 179.9, 12), (- 170, 14)]"
    "length crossing_samples = 3"
    by (simp_all add: crossing_samples_def geo_sample_def)
  have g: "longitude_deg (geo_sample 0 10 179.9) = 179.9" "latitude_deg (geo_sample 0 10 179.9) = 10"
    by (simp_all add: geo_sample_def)
  show ?thesis
    using track_segments_partition_samples [of crossing_samples "geo_sample 0 10 179.9"]
    unfolding m g by (auto simp: list_all_iff)
qed

section \<open>Properties of the orbit partitioner\<close>

lemma orbit_loop_takeWhile:
  "orbit_loop results ppo ks slices =
     slices @ map (\<lambda>k. py_slice results (k * ppo) (k * ppo + ppo))
                (takeWhile (\<lambda>k. k * ppo + ppo \<le> int (length results)) ks)"
  by (induction ks arbitrary: slices) (simp_all add: Let_def not_less)

lemma py_slice_in_range:
  "0 \<le> a \<Longrightarrow> a \<le> b \<Longrightarrow> b \<le> int (length xs) \<Longrightarrow>
   py_slice xs a b = take (nat (b - a)) (drop (nat a) xs)"
  by (simp add: py_slice_def Let_def min_def)

lemma py_int_floor: "0 \<le> r \<Longrightarrow> py_int r = \<lfloor>r\<rfloor>"
  by (simp add: py_int_def)

lemma points_per_orbit_whole_steps:
  assumes m: "spec_mean_step_minutes results = 90 / real k"
    and k: "1 \<le> k" and n: "k + 1 < length results"
  shows "points_per_orbit results num_orbits = Inr (int k)"
proof -
  define c where "c = real (length results)"
  define r where "r = real k"
  define d where "d = (time (last results) - time (hd results)) / 60"
  have kpos: "0 < r" using k by (simp add: r_def)
  have n1: "0 < c - 1" using k n by (simp add: c_def)
  have nk: "r + 1 < c" using n unfolding r_def c_def by linarith
  have "d / (c - 1) = 90 / r"
    using m by (simp add: spec_mean_step_minutes_def d_def c_def r_def)
  then have "d = 90 / r * (c - 1)" using n1 by (simp add: field_simps)
  then have d: "d = 90 * (c - 1) / r" by simp
  have dpos: "0 < d" unfolding d using n1 kpos by simp
  have npos: "0 < c" using n1 by linarith
  have "0 < d / c" using dpos npos by (rule divide_pos_pos)
  then have ts: "d / c \<noteq> 0" by linarith
  have q: "90 / (d / c) = r * c / (c - 1)"
    unfolding d using n1 kpos by (simp add: field_simps)
  have "r * (c - 1) \<le> r * c" using kpos by (simp add: algebra_simps)
  then have lo: "r \<le> r * c / (c - 1)" using n1 by (simp only: pos_le_divide_eq)
  have "r * c < (r + 1) * (c - 1)" using nk by (simp add: algebra_simps)
  then have hi: "r * c / (c - 1) < r + 1" using n1 by (simp only: pos_divide_less_eq)
  have "\<lfloor>r * c / (c - 1)\<rfloor> = int k"
    using lo hi unfolding r_def by (intro floor_unique) simp_all
  moreover have "0 \<le> r * c / (c - 1)" using lo kpos by linarith
  ultimately have "py_int (90 / (d / c)) = int k" unfolding q by (simp add: py_int_def)
  moreover have "0 < length results" using n by linarith
  ultimately show ?thesis
    using ts unfolding d_def c_def by (simp add: points_per_orbit_def Let_def)
qed

lemma plot_multiple_orbits_three:
  assumes p: "points_per_orbit results 3 = Inr (int k)" and n: "3 * k \<le> length results"
  shows "plot_multiple_orbits results 3
           = Inr [take k results, take k (drop k results), take k (drop (2 * k) results)]"
proof -
  have s0: "py_slice results 0 (int k) = take k results"
    using n by (simp add: py_slice_in_range)
  have s1: "py_slice results (int k) (int k + int k) = take k (drop k results)"
    using n by (simp add: py_slice_in_range)
  have s2: "py_slice results (2 * int k) (2 * int k + int k) = take k (drop (2 * k) results)"
    using n by (simp add: py_slice_in_range nat_mult_distrib)
  show ?thesis
    using p n s0 s1 s2
    by (simp add: plot_multiple_orbits_def colors_def py_range_def upto_rec1 Let_def)
qed

lemma plot_multiple_orbits_two:
  assumes "points_per_orbit results 3 = Inr 18" "length results = 40"
  shows "plot_multiple_orbits results 3 = Inr [take 18 results, take 18 (drop 18 results)]"
  using assms
  by (simp add: plot_multiple_orbits_def colors_def py_range_def upto_rec1 Let_def
        py_slice_in_range)

text \<open>
  Claim C2, as the code has it. The partitioner takes no period estimate: its period
  is the constant 90 minutes. Whenever the mean step of the samples (the time span over
  \<open>count - 1\<close>) is \<open>90 / k\<close> minutes for a whole number \<open>k \<ge> 1\<close> and at least \<open>3 * k\<close>
  samples exist, 3 orbits requested give exactly the 3 slices \<open>results[0:k]\<close>,
  \<open>results[k:2k]\<close>, \<open>results[2k:3k]\<close> of \<open>k\<close> samples each. In particular, with a mean
  step of 5 minutes, at least 54 samples give exactly 3 slices of 18 samples each, and
  40 samples give exactly the 2 full slices \<open>results[0:18]\<close> and \<open>results[18:36]\<close>.
\<close>

theorem plot_multiple_orbits_fixed_period:
  "(1 \<le> k \<and> spec_mean_step_minutes results = 90 / real k \<and> 3 * k \<le> length results \<longrightarrow>
      plot_multiple_orbits results 3
        = Inr [take k results, take k (drop k results), take k (drop (2 * k) results)] \<and>
      length (take k results) = k \<and> length (take k (drop k results)) = k \<and>
      length (take k (drop (2 * k) results)) = k) \<and>
   (spec_mean_step_minutes results = 5 \<and> 54 \<le> length results \<longrightarrow>
      plot_multiple_orbits results 3
        = Inr [take 18 results, take 18 (drop 18 results), take 18 (drop 36 results)] \<and>
      length (take 18 results) = 18 \<and> length (take 18 (drop 18 results)) = 18 \<and>
      length (take 18 (drop 36 results)) = 18) \<and>
   (spec_mean_step_minutes results = 5 \<and> length results = 40 \<longrightarrow>
      plot_multiple_orbits results 3 = Inr [take 18 results, take 18 (drop 18 results)] \<and>
      length (take 18 results) = 18 \<and> length (take 18 (drop 18 results)) = 18)"
proof -
  have a: "plot_multiple_orbits rs 3
             = Inr [take j rs, take j (drop j rs), take j (drop (2 * j) rs)]"
    if "1 \<le> j" "spec_mean_step_minutes rs = 90 / real j" "3 * j \<le> length rs"
    for j and rs :: "sample list"
  proof -
    have "j + 1 < length rs" using that(1) that(3) by linarith
    then have "points_per_orbit rs 3 = Inr (int j)"
      using that(1) that(2) by (intro points_per_orbit_whole_steps)
    then show ?thesis using that(3) by (rule plot_multiple_orbits_three)
  qed
  have five: "spec_mean_step_minutes results = 90 / real 18"
    if "spec_mean_step_minutes results = 5"
    using that by simp
  have b: "plot_multiple_orbits results 3
             = Inr [take 18 results, take 18 (drop 18 results), take 18 (drop 36 results)]"
    if "spec_mean_step_minutes results = 5" "54 \<le> length results"
    using a [of 18 results] five that by simp
  have c: "plot_multiple_orbits results 3 = Inr [take 18 results, take 18 (drop 18 results)]"
    if "spec_mean_step_minutes results = 5" "length results = 40"
  proof -
    have "points_per_orbit results 3 = Inr (int 18)"
      using five [OF that(1)] that(2) by (intro points_per_orbit_whole_steps) simp_all
    then show ?thesis using that(2) by (intro plot_multiple_orbits_two) simp_all
  qed
  show ?thesis using a [of k results] b c by auto
qed

lemma hd_samples_every: "0 < n \<Longrightarrow> time (hd (samples_every s n)) = 0"
  by (simp add: samples_every_def hd_map sample_at_def time_make_sample upt_conv_Cons)

lemma last_samples_every: "0 < n \<Longrightarrow> time (last (samples_every s n)) = s * real (n - 1)"
  by (simp add: samples_every_def last_map sample_at_def time_make_sample)

lemma length_samples_every: "length (samples_every s n) = n"
  by (simp add: samples_every_def)

theorem plot_multiple_orbits_fixed_period_witness:
  "(1 :: nat) \<le> 90 \<and>
   spec_mean_step_minutes (samples_every 60 300) = 90 / real 90 \<and>
   3 * 90 \<le> length (samples_every 60 300) \<and>
   plot_multiple_orbits (samples_every 60 300) 3
     = Inr [take 90 (samples_every 60 300), take 90 (drop 90 (samples_every 60 300)),
            take 90 (drop 180 (samples_every 60 300))] \<and>
   spec_mean_step_minutes (samples_every 300 60) = 5 \<and>
   54 \<le> length (samples_every 300 60) \<and>
   plot_multiple_orbits (samples_every 300 60) 3
     = Inr [take 18 (samples_every 300 60), take 18 (drop 18 (samples_every 300 60)),
            take 18 (drop 36 (samples_every 300 60))] \<and>
   spec_mean_step_minutes (samples_every 300 40) = 5 \<and>
   length (samples_every 300 40) = 40 \<and>
   plot_multiple_orbits (samples_every 300 40) 3
     = Inr [take 18 (samples_every 300 40), take 18 (drop 18 (samples_every 300 40))]"
proof -
  have m1: "spec_mean_step_minutes (samples_every 60 300) = 90 / real 90"
    by (simp add: spec_mean_step_minutes_def hd_samples_every last_samples_every
          length_samples_every)
  have m60: "spec_mean_step_minutes (samples_every 300 60) = 5"
    by (simp add: spec_mean_step_minutes_def hd_samples_every last_samples_every
          length_samples_every)
  have m40: "spec_mean_step_minutes (samples_every 300 40) = 5"
    by (simp add: spec_mean_step_minutes_def hd_samples_every last_samples_every
          length_samples_every)
  show ?thesis
    using plot_multiple_orbits_fixed_period [of 90 "samples_every 60 300"]
      plot_multiple_orbits_fixed_period [of 18 "samples_every 300 60"]
      plot_multiple_orbits_fixed_period [of 18 "samples_every 300 40"] m1 m60 m40
    by (simp add: length_samples_every)
qed

text \<open>
  C2 fails as a description of the computation. For 10 samples 10 minutes apart the
  mean step is 10 minutes and \<open>floor(period / mean_step)\<close> is 9, for a period of 90 as
  for one of 92.7, while the code divides the time span by the sample count and returns
  10. For 200 samples one minute apart a period estimate of 92.7 would give 92 points
  per orbit, while the code, with its period of 90, returns 90. For a single sample the
  code does not fall back to \<open>count // orbit_count\<close>: its time step is 0 and
  \<open>90 / time_step\<close> raises.
\<close>

theorem points_per_orbit_differs_from_spec:
  "points_per_orbit (samples_every 600 10) 3 = Inr 10 \<and>
   spec_mean_step_minutes (samples_every 600 10) = 10 \<and>
   spec_points_per_orbit 90 (samples_every 600 10) = 9 \<and>
   spec_points_per_orbit 92.7 (samples_every 600 10) = 9 \<and>
   points_per_orbit (samples_every 60 200) 3 = Inr 90 \<and>
   spec_points_per_orbit 92.7 (samples_every 60 200) = 92 \<and>
   points_per_orbit [sample_at 0] 3 = Inl ZeroDivisionError"
proof -
  have m1: "spec_mean_step_minutes (samples_every 60 200) = 1"
    by (simp add: spec_mean_step_minutes_def hd_samples_every last_samples_every
          length_samples_every)
  have "\<lfloor>90 / (199 / 200 :: real)\<rfloor> = 90" by simp
  then have a1: "points_per_orbit (samples_every 60 200) 3 = Inr 90"
    by (simp add: points_per_orbit_def Let_def hd_samples_every last_samples_every
          length_samples_every py_int_def)
  have "\<lfloor>92.7 :: real\<rfloor> = 92" by linarith
  then have c1: "spec_points_per_orbit 92.7 (samples_every 60 200) = 92"
    unfolding spec_points_per_orbit_def m1 by simp
  have m: "spec_mean_step_minutes (samples_every 600 10) = 10"
    by (simp add: spec_mean_step_minutes_def hd_samples_every last_samples_every
          length_samples_every)
  have a: "points_per_orbit (samples_every 600 10) 3 = Inr 10"
    by (simp add: points_per_orbit_def Let_def hd_samples_every last_samples_every
          length_samples_every py_int_def)
  have b: "spec_points_per_orbit 90 (samples_every 600 10) = 9"
    unfolding spec_points_per_orbit_def m by simp
  have "\<lfloor>92.7 / (10 :: real)\<rfloor> = 9" by linarith
  then have c: "spec_points_per_orbit 92.7 (samples_every 600 10) = 9"
    unfolding spec_points_per_orbit_def m by simp
  have d: "points_per_orbit [sample_at 0] 3 = Inl ZeroDivisionError"
    by (simp add: points_per_orbit_def Let_def)
  show ?thesis using a m b c a1 c1 d by simp
qed


lemma sorted_times_hd_last:
  assumes "sorted (map time results)" "results \<noteq> []"
  shows "time (hd results) \<le> time (last results)"
proof -
  have "hd results \<in> set results" "last results \<in> set results" using assms(2) by simp_all
  obtain r rs where rs: "results = r # rs" using assms(2) by (cases results) auto
  show ?thesis
  proof (cases "rs = []")
    case True
    with rs show ?thesis by simp
  next
    case False
    then have "last rs \<in> set rs" by simp
    with assms(1) rs False show ?thesis by auto
  qed
qed

lemma points_per_orbit_nonneg:
  assumes "sorted (map time results)" "points_per_orbit results num_orbits = Inr ppo"
  shows "0 \<le> ppo"
proof (cases "results = []")
  case True
  with assms(2) show ?thesis by (simp add: points_per_orbit_def split: if_splits)
next
  case False
  let ?d = "(time (last results) - time (hd results)) / 60"
  let ?ts = "?d / real (length results)"
  have "0 \<le> ?d" using sorted_times_hd_last [OF assms(1) False] by simp
  then have "0 \<le> 90 / ?ts" by simp
  then have "0 \<le> py_int (90 / ?ts)" by (simp add: py_int_def)
  with assms(2) False show ?thesis
    by (auto simp: points_per_orbit_def Let_def split: if_splits)
qed

lemma orbit_slices:
  assumes p: "0 \<le> ppo"
    and slices_def: "slices = orbit_loop results ppo (py_range m) []"
  shows "length slices \<le> nat m"
    and "k < length slices \<Longrightarrow>
           slices ! k = take (nat ppo) (drop (k * nat ppo) results) \<and>
           length (slices ! k) = nat ppo \<and> (k + 1) * nat ppo \<le> length results"
    and "length slices < nat m \<Longrightarrow> length results < (length slices + 1) * nat ppo"
proof -
  let ?P = "\<lambda>k. k * ppo + ppo \<le> int (length results)"
  let ?tw = "takeWhile ?P (py_range m)"
  have sl: "slices = map (\<lambda>k. py_slice results (k * ppo) (k * ppo + ppo)) ?tw"
    by (simp add: slices_def orbit_loop_takeWhile)
  have len: "length slices = length ?tw" by (simp add: sl)
  have le: "length ?tw \<le> nat m"
    using length_takeWhile_le [of ?P "py_range m"] by (simp add: py_range_def)
  show "length slices \<le> nat m" using le len by simp
  have nth_range: "py_range m ! j = int j" if "j < nat m" for j
    using that by (simp add: py_range_def)
  show "slices ! k = take (nat ppo) (drop (k * nat ppo) results) \<and>
        length (slices ! k) = nat ppo \<and> (k + 1) * nat ppo \<le> length results"
    if k: "k < length slices"
  proof -
    have ktw: "k < length ?tw" using k len by simp
    then have km: "k < nat m" using le by linarith
    have v: "?tw ! k = int k" using takeWhile_nth [OF ktw] nth_range [OF km] by simp
    have "?tw ! k \<in> set ?tw" using ktw by (rule nth_mem)
    then have "?P (?tw ! k)" by (rule set_takeWhileD [THEN conjunct2])
    then have ok: "int k * ppo + ppo \<le> int (length results)" by (simp only: v)
    have nn: "0 \<le> int k * ppo" using p by simp
    have nk: "nat (int k * ppo) = k * nat ppo" by (simp add: nat_mult_distrib)
    have s: "slices ! k = take (nat ppo) (drop (k * nat ppo) results)"
      using ktw v py_slice_in_range [OF nn _ ok] p nk by (simp add: sl)
    have "int ((k + 1) * nat ppo) = int k * ppo + ppo" using p by (simp add: algebra_simps)
    with ok have b: "(k + 1) * nat ppo \<le> length results" by linarith
    then have "nat ppo \<le> length results - k * nat ppo" by simp
    then have "length (take (nat ppo) (drop (k * nat ppo) results)) = nat ppo" by simp
    with s b show ?thesis by simp
  qed
  show "length results < (length slices + 1) * nat ppo" if lt: "length slices < nat m"
  proof -
    have l2: "length ?tw < length (py_range m)" using lt len by (simp add: py_range_def)
    have "\<not> ?P (py_range m ! length ?tw)" using l2 by (rule nth_length_takeWhile)
    moreover have "py_range m ! length ?tw = int (length ?tw)"
      using lt len by (intro nth_range) simp
    ultimately have a: "int (length results) < int (length ?tw) * ppo + ppo" by simp
    have b: "int ((length ?tw + 1) * nat ppo) = int (length ?tw) * ppo + ppo"
      using p by (simp add: algebra_simps)
    have "int (length results) < int ((length ?tw + 1) * nat ppo)"
      using a unfolding b .
    then have "length results < (length ?tw + 1) * nat ppo" by (simp only: of_nat_less_iff)
    then show ?thesis by (simp only: len)
  qed
qed


lemma plot_multiple_orbits_empty:
  assumes "num_orbits \<noteq> 0"
  shows "\<exists>slices. plot_multiple_orbits [] num_orbits = Inr slices \<and> (\<forall>s \<in> set slices. s = [])"
proof -
  have "plot_multiple_orbits [] num_orbits
          = Inr (map (\<lambda>k. py_slice [] (k * 0) (k * 0 + 0))
                   (takeWhile (\<lambda>k. k * 0 + 0 \<le> int (length ([] :: sample list)))
                      (py_range (min num_orbits (int (length colors))))))"
    using assms by (simp add: plot_multiple_orbits_def points_per_orbit_def orbit_loop_takeWhile)
  then show ?thesis by (auto simp: py_slice_def)
qed

text \<open>
  Claim C8, as the code has it. For time-ordered samples and \<open>points_per_orbit = ppo\<close>,
  the partitioner emits at most \<open>min(num_orbits, 5)\<close> slices (one per colour); slice
  \<open>k\<close> is \<open>results[k*ppo : (k+1)*ppo]\<close>, lies within the samples and has exactly
  \<open>ppo\<close> samples; and when fewer than \<open>min(num_orbits, 5)\<close> slices are emitted, the
  upper bound of the next one exceeds the sample count. For empty input the segmenter
  returns no segment, and the partitioner, for a non-zero \<open>num_orbits\<close>, returns
  normally with empty slices only.
\<close>

theorem plot_multiple_orbits_slices:
  "sorted (map time results) \<Longrightarrow> points_per_orbit results num_orbits = Inr ppo \<Longrightarrow>
     (\<exists>slices. plot_multiple_orbits results num_orbits = Inr slices \<and>
        length slices \<le> nat (min num_orbits 5) \<and>
        (\<forall>k < length slices.
            slices ! k = take (nat ppo) (drop (k * nat ppo) results) \<and>
            length (slices ! k) = nat ppo \<and> (k + 1) * nat ppo \<le> length results) \<and>
        (length slices < nat (min num_orbits 5) \<longrightarrow>
           length results < (length slices + 1) * nat ppo)) \<and>
     plot_track_segments [] [] = Inr [] \<and>
     (num_orbits' \<noteq> 0 \<longrightarrow>
        (\<exists>slices. plot_multiple_orbits [] num_orbits' = Inr slices \<and>
           (\<forall>s \<in> set slices. s = [])))"
proof -
  assume srt: "sorted (map time results)"
    and ppo: "points_per_orbit results num_orbits = Inr ppo"
  have p: "0 \<le> ppo" using srt ppo by (rule points_per_orbit_nonneg)
  define slices where "slices = orbit_loop results ppo (py_range (min num_orbits 5)) []"
  have res: "plot_multiple_orbits results num_orbits = Inr slices"
    using ppo by (simp add: plot_multiple_orbits_def slices_def colors_def)
  note sl = orbit_slices [OF p slices_def]
  have seg: "plot_track_segments [] [] = Inr []"
    by (simp add: plot_track_segments_def save_segment_def)
  show ?thesis
    using res sl seg plot_multiple_orbits_empty [of num_orbits'] by blast
qed

lemma times_hourly:
  "map time (samples_every 3600 12)
     = [0, 3600, 7200, 10800, 14400, 18000, 21600, 25200, 28800, 32400, 36000, 39600]"
  by (simp add: samples_every_def sample_at_def time_make_sample upt_conv_Cons)

lemma points_per_orbit_hourly: "points_per_orbit (samples_every 3600 12) 6 = Inr 1"
proof -
  have "\<lfloor>90 / (55 :: real)\<rfloor> = 1" by linarith
  then show ?thesis
    by (simp add: points_per_orbit_def Let_def hd_samples_every last_samples_every
        length_samples_every py_int_def)
qed

theorem plot_multiple_orbits_slices_witness:
  "sorted (map time (samples_every 3600 12)) \<and>
   points_per_orbit (samples_every 3600 12) 6 = Inr 1 \<and>
   (3 :: int) \<noteq> 0 \<and>
   (\<exists>slices. plot_multiple_orbits (samples_every 3600 12) 6 = Inr slices \<and>
      length slices \<le> 5 \<and>
      (\<forall>k < length slices.
          slices ! k = take 1 (drop k (samples_every 3600 12)) \<and> length (slices ! k) = 1)) \<and>
   (\<exists>slices. plot_multiple_orbits [] 3 = Inr slices \<and> list_all (\<lambda>s. s = []) slices)"
proof -
  have srt: "sorted (map time (samples_every 3600 12))"
    unfolding times_hourly by simp
  show ?thesis
    using plot_multiple_orbits_slices [OF srt points_per_orbit_hourly, of 3] srt
      points_per_orbit_hourly
    by (auto simp: list_all_iff)
qed

text \<open>
  C8 fails on the number of slices. For 12 samples an hour apart \<open>points_per_orbit\<close>
  is 1; with 6 orbits requested the slice of index 5 would end at 6, within the 12
  samples, yet only 5 slices are emitted. For empty input with 3 orbits requested the
  result is three empty slices, and with 0 orbits requested the fallback
  \<open>len(results) // num_orbits\<close> raises.
\<close>

theorem plot_multiple_orbits_caps_at_five:
  "points_per_orbit (samples_every 3600 12) 6 = Inr 1 \<and>
   (5 + 1) * 1 \<le> int (length (samples_every 3600 12)) \<and>
   (\<exists>slices. plot_multiple_orbits (samples_every 3600 12) 6 = Inr slices \<and> length slices = 5) \<and>
   plot_multiple_orbits [] 3 = Inr [[], [], []] \<and>
   plot_multiple_orbits [] 0 = Inl ZeroDivisionError"
proof -
  have a: "\<exists>slices. plot_multiple_orbits (samples_every 3600 12) 6 = Inr slices \<and> length slices = 5"
    by (simp add: plot_multiple_orbits_def points_per_orbit_hourly colors_def py_range_def
          upto_rec1 Let_def length_samples_every)
  have b: "plot_multiple_orbits [] 3 = Inr [[], [], []]"
    by (simp add: plot_multiple_orbits_def points_per_orbit_def colors_def py_range_def
          upto_rec1 Let_def py_slice_def)
  have c: "plot_multiple_orbits [] 0 = Inl ZeroDivisionError"
    by (simp add: plot_multiple_orbits_def points_per_orbit_def)
  show ?thesis using a b c points_per_orbit_hourly by (simp add: length_samples_every)
qed

end
